theory Spec2Isabelle
  imports Main "HOL-Library.Sublist"
begin

section \<open>Strings of the component\<close>

text \<open>
  A string of the program is a \<^typ>\<open>string\<close> holding its UTF-8 bytes, as the source
  file stores its literals. The literals outside ASCII are named here once; the comment
  of each gives its code points.
\<close>

definition txt_completed :: string where
  \<comment> \<open>U+5DF2 U+5B8C U+6210\<close>
  "txt_completed = [CHR 0xE5, CHR 0xB7, CHR 0xB2, CHR 0xE5, CHR 0xAE, CHR 0x8C, CHR 0xE6, CHR 0x88, CHR 0x90]"

definition txt_running :: string where
  \<comment> \<open>U+540C U+6B65 U+4E2D\<close>
  "txt_running = [CHR 0xE5, CHR 0x90, CHR 0x8C, CHR 0xE6, CHR 0xAD, CHR 0xA5, CHR 0xE4, CHR 0xB8, CHR 0xAD]"

definition txt_failed :: string where
  \<comment> \<open>U+5931 U+6557\<close>
  "txt_failed = [CHR 0xE5, CHR 0xA4, CHR 0xB1, CHR 0xE6, CHR 0x95, CHR 0x97]"

definition txt_never_run :: string where
  \<comment> \<open>U+672A U+57F7 U+884C\<close>
  "txt_never_run = [CHR 0xE6, CHR 0x9C, CHR 0xAA, CHR 0xE5, CHR 0x9F, CHR 0xB7, CHR 0xE8, CHR 0xA1, CHR 0x8C]"

definition txt_unknown :: string where
  \<comment> \<open>U+672A U+77E5\<close>
  "txt_unknown = [CHR 0xE6, CHR 0x9C, CHR 0xAA, CHR 0xE7, CHR 0x9F, CHR 0xA5]"

definition log_hk_status_failed :: string where
  \<comment> \<open>U+7372 U+53D6 U+6E2F U+80A1 U+72C0 U+614B U+5931 U+6557\<close>
  "log_hk_status_failed =
     [CHR 0xE7, CHR 0x8D, CHR 0xB2, CHR 0xE5, CHR 0x8F, CHR 0x96, CHR 0xE6, CHR 0xB8, CHR 0xAF, CHR 0xE8, CHR 0x82, CHR 0xA1, CHR 0xE7, CHR 0x8B, CHR 0x80, CHR 0xE6, CHR 0x85, CHR 0x8B, CHR 0xE5, CHR 0xA4, CHR 0xB1, CHR 0xE6, CHR 0x95, CHR 0x97] @ '':''"

definition log_us_status_failed :: string where
  \<comment> \<open>U+7372 U+53D6 U+7F8E U+80A1 U+72C0 U+614B U+5931 U+6557\<close>
  "log_us_status_failed =
     [CHR 0xE7, CHR 0x8D, CHR 0xB2, CHR 0xE5, CHR 0x8F, CHR 0x96, CHR 0xE7, CHR 0xBE, CHR 0x8E, CHR 0xE8, CHR 0x82, CHR 0xA1, CHR 0xE7, CHR 0x8B, CHR 0x80, CHR 0xE6, CHR 0x85, CHR 0x8B, CHR 0xE5, CHR 0xA4, CHR 0xB1, CHR 0xE6, CHR 0x95, CHR 0x97] @ '':''"

definition msg_hk_start :: string where
  \<comment> \<open>U+958B U+59CB U+540C U+6B65 U+6E2F U+80A1 U+6578 U+64DA\<close>
  "msg_hk_start =
     [CHR 0xE9, CHR 0x96, CHR 0x8B, CHR 0xE5, CHR 0xA7, CHR 0x8B, CHR 0xE5, CHR 0x90, CHR 0x8C, CHR 0xE6, CHR 0xAD, CHR 0xA5, CHR 0xE6, CHR 0xB8, CHR 0xAF, CHR 0xE8, CHR 0x82, CHR 0xA1, CHR 0xE6, CHR 0x95, CHR 0xB8, CHR 0xE6, CHR 0x93, CHR 0x9A] @ ''...''"

definition msg_hk_done :: string where
  \<comment> \<open>U+6E2F U+80A1 U+540C U+6B65 U+5B8C U+6210\<close>
  "msg_hk_done =
     [CHR 0xE6, CHR 0xB8, CHR 0xAF, CHR 0xE8, CHR 0x82, CHR 0xA1, CHR 0xE5, CHR 0x90, CHR 0x8C, CHR 0xE6, CHR 0xAD, CHR 0xA5, CHR 0xE5, CHR 0xAE, CHR 0x8C, CHR 0xE6, CHR 0x88, CHR 0x90] @ '': ''"

definition msg_unit :: string where
  \<comment> \<open>U+652F\<close>
  "msg_unit =
     '' '' @ [CHR 0xE6, CHR 0x94, CHR 0xAF]"

definition msg_hk_failed :: string where
  \<comment> \<open>U+6E2F U+80A1 U+540C U+6B65 U+5931 U+6557\<close>
  "msg_hk_failed =
     [CHR 0xE6, CHR 0xB8, CHR 0xAF, CHR 0xE8, CHR 0x82, CHR 0xA1, CHR 0xE5, CHR 0x90, CHR 0x8C, CHR 0xE6, CHR 0xAD, CHR 0xA5, CHR 0xE5, CHR 0xA4, CHR 0xB1, CHR 0xE6, CHR 0x95, CHR 0x97] @ '': ''"

definition msg_us_start :: string where
  \<comment> \<open>U+958B U+59CB U+540C U+6B65 U+7F8E U+80A1 U+6578 U+64DA\<close>
  "msg_us_start =
     [CHR 0xE9, CHR 0x96, CHR 0x8B, CHR 0xE5, CHR 0xA7, CHR 0x8B, CHR 0xE5, CHR 0x90, CHR 0x8C, CHR 0xE6, CHR 0xAD, CHR 0xA5, CHR 0xE7, CHR 0xBE, CHR 0x8E, CHR 0xE8, CHR 0x82, CHR 0xA1, CHR 0xE6, CHR 0x95, CHR 0xB8, CHR 0xE6, CHR 0x93, CHR 0x9A] @ ''...''"

definition msg_us_done :: string where
  \<comment> \<open>U+7F8E U+80A1 U+540C U+6B65 U+5B8C U+6210\<close>
  "msg_us_done =
     [CHR 0xE7, CHR 0xBE, CHR 0x8E, CHR 0xE8, CHR 0x82, CHR 0xA1, CHR 0xE5, CHR 0x90, CHR 0x8C, CHR 0xE6, CHR 0xAD, CHR 0xA5, CHR 0xE5, CHR 0xAE, CHR 0x8C, CHR 0xE6, CHR 0x88, CHR 0x90] @ '': ''"

definition msg_us_failed :: string where
  \<comment> \<open>U+7F8E U+80A1 U+540C U+6B65 U+5931 U+6557\<close>
  "msg_us_failed =
     [CHR 0xE7, CHR 0xBE, CHR 0x8E, CHR 0xE8, CHR 0x82, CHR 0xA1, CHR 0xE5, CHR 0x90, CHR 0x8C, CHR 0xE6, CHR 0xAD, CHR 0xA5, CHR 0xE5, CHR 0xA4, CHR 0xB1, CHR 0xE6, CHR 0x95, CHR 0x97] @ '': ''"

definition msg_all_start :: string where
  \<comment> \<open>U+958B U+59CB U+540C U+6B65 U+6E2F U+80A1 U+548C U+7F8E U+80A1 U+6578 U+64DA\<close>
  "msg_all_start =
     [CHR 0xE9, CHR 0x96, CHR 0x8B, CHR 0xE5, CHR 0xA7, CHR 0x8B, CHR 0xE5, CHR 0x90, CHR 0x8C, CHR 0xE6, CHR 0xAD, CHR 0xA5, CHR 0xE6, CHR 0xB8, CHR 0xAF, CHR 0xE8, CHR 0x82, CHR 0xA1, CHR 0xE5, CHR 0x92, CHR 0x8C, CHR 0xE7, CHR 0xBE, CHR 0x8E, CHR 0xE8, CHR 0x82, CHR 0xA1, CHR 0xE6, CHR 0x95, CHR 0xB8, CHR 0xE6, CHR 0x93, CHR 0x9A] @ ''...''"

definition msg_all_done :: string where
  \<comment> \<open>U+6E2F U+80A1 U+548C U+7F8E U+80A1 U+540C U+6B65 U+5B8C U+6210\<close>
  "msg_all_done =
     [CHR 0xE6, CHR 0xB8, CHR 0xAF, CHR 0xE8, CHR 0x82, CHR 0xA1, CHR 0xE5, CHR 0x92, CHR 0x8C, CHR 0xE7, CHR 0xBE, CHR 0x8E, CHR 0xE8, CHR 0x82, CHR 0xA1, CHR 0xE5, CHR 0x90, CHR 0x8C, CHR 0xE6, CHR 0xAD, CHR 0xA5, CHR 0xE5, CHR 0xAE, CHR 0x8C, CHR 0xE6, CHR 0x88, CHR 0x90]"

definition msg_all_failed :: string where
  \<comment> \<open>U+540C U+6B65 U+5931 U+6557\<close>
  "msg_all_failed =
     [CHR 0xE5, CHR 0x90, CHR 0x8C, CHR 0xE6, CHR 0xAD, CHR 0xA5, CHR 0xE5, CHR 0xA4, CHR 0xB1, CHR 0xE6, CHR 0x95, CHR 0x97] @ '': ''"

definition txt_header_title :: string where
  \<comment> \<open>U+6E2F U+80A1 U+7F8E U+80A1 U+540C U+6B65\<close>
  "txt_header_title =
     [CHR 0xE6, CHR 0xB8, CHR 0xAF, CHR 0xE8, CHR 0x82, CHR 0xA1] @ ''/'' @ [CHR 0xE7, CHR 0xBE, CHR 0x8E, CHR 0xE8, CHR 0x82, CHR 0xA1, CHR 0xE5, CHR 0x90, CHR 0x8C, CHR 0xE6, CHR 0xAD, CHR 0xA5]"

definition txt_hk_flag :: string where
  \<comment> \<open>U+1F1ED U+1F1F0\<close>
  "txt_hk_flag =
     [CHR 0xF0, CHR 0x9F, CHR 0x87, CHR 0xAD, CHR 0xF0, CHR 0x9F, CHR 0x87, CHR 0xB0]"

definition txt_hk_title :: string where
  \<comment> \<open>U+6E2F U+80A1\<close>
  "txt_hk_title =
     [CHR 0xE6, CHR 0xB8, CHR 0xAF, CHR 0xE8, CHR 0x82, CHR 0xA1] @ '' (AKShare)''"

definition txt_total_label :: string where
  \<comment> \<open>U+7E3D U+6578\<close>
  "txt_total_label =
     [CHR 0xE7, CHR 0xB8, CHR 0xBD, CHR 0xE6, CHR 0x95, CHR 0xB8] @ '':''"

definition txt_inserted_label :: string where
  \<comment> \<open>U+65B0 U+589E\<close>
  "txt_inserted_label =
     [CHR 0xE6, CHR 0x96, CHR 0xB0, CHR 0xE5, CHR 0xA2, CHR 0x9E] @ '':''"

definition txt_updated_label :: string where
  \<comment> \<open>U+66F4 U+65B0\<close>
  "txt_updated_label =
     [CHR 0xE6, CHR 0x9B, CHR 0xB4, CHR 0xE6, CHR 0x96, CHR 0xB0] @ '':''"

definition txt_finished_label :: string where
  \<comment> \<open>U+5B8C U+6210 U+6642 U+9593\<close>
  "txt_finished_label =
     [CHR 0xE5, CHR 0xAE, CHR 0x8C, CHR 0xE6, CHR 0x88, CHR 0x90, CHR 0xE6, CHR 0x99, CHR 0x82, CHR 0xE9, CHR 0x96, CHR 0x93] @ '': ''"

definition txt_hk_button :: string where
  \<comment> \<open>U+540C U+6B65 U+6E2F U+80A1\<close>
  "txt_hk_button =
     [CHR 0xE5, CHR 0x90, CHR 0x8C, CHR 0xE6, CHR 0xAD, CHR 0xA5, CHR 0xE6, CHR 0xB8, CHR 0xAF, CHR 0xE8, CHR 0x82, CHR 0xA1]"

definition txt_us_flag :: string where
  \<comment> \<open>U+1F1FA U+1F1F8\<close>
  "txt_us_flag =
     [CHR 0xF0, CHR 0x9F, CHR 0x87, CHR 0xBA, CHR 0xF0, CHR 0x9F, CHR 0x87, CHR 0xB8]"

definition txt_us_title :: string where
  \<comment> \<open>U+7F8E U+80A1\<close>
  "txt_us_title =
     [CHR 0xE7, CHR 0xBE, CHR 0x8E, CHR 0xE8, CHR 0x82, CHR 0xA1] @ '' (Alpha Vantage)''"

definition txt_us_button :: string where
  \<comment> \<open>U+540C U+6B65 U+7F8E U+80A1\<close>
  "txt_us_button =
     [CHR 0xE5, CHR 0x90, CHR 0x8C, CHR 0xE6, CHR 0xAD, CHR 0xA5, CHR 0xE7, CHR 0xBE, CHR 0x8E, CHR 0xE8, CHR 0x82, CHR 0xA1]"

definition txt_all_button :: string where
  \<comment> \<open>U+4E00 U+9375 U+540C U+6B65 U+6E2F U+80A1 U+7F8E U+80A1\<close>
  "txt_all_button =
     [CHR 0xE4, CHR 0xB8, CHR 0x80, CHR 0xE9, CHR 0x8D, CHR 0xB5, CHR 0xE5, CHR 0x90, CHR 0x8C, CHR 0xE6, CHR 0xAD, CHR 0xA5, CHR 0xE6, CHR 0xB8, CHR 0xAF, CHR 0xE8, CHR 0x82, CHR 0xA1] @ ''+'' @ [CHR 0xE7, CHR 0xBE, CHR 0x8E, CHR 0xE8, CHR 0x82, CHR 0xA1]"

definition echo_banner :: string where
  \<comment> \<open>U+1F415 U+555F U+52D5\<close>
  "echo_banner =
     [CHR 0xF0, CHR 0x9F, CHR 0x90, CHR 0x95] @ '' '' @ [CHR 0xE5, CHR 0x95, CHR 0x9F, CHR 0xE5, CHR 0x8B, CHR 0x95] @ '' Backend Watchdog...''"

definition echo_project_dir :: string where
  \<comment> \<open>U+1F4CD U+9805 U+76EE U+76EE U+9304\<close>
  "echo_project_dir =
     [CHR 0xF0, CHR 0x9F, CHR 0x93, CHR 0x8D] @ '' '' @ [CHR 0xE9, CHR 0xA0, CHR 0x85, CHR 0xE7, CHR 0x9B, CHR 0xAE, CHR 0xE7, CHR 0x9B, CHR 0xAE, CHR 0xE9, CHR 0x8C, CHR 0x84] @ '': ''"

definition echo_docker_down :: string where
  \<comment> \<open>U+274C U+672A U+904B U+884C U+FF01 U+8ACB U+5148 U+555F U+52D5\<close>
  "echo_docker_down =
     [CHR 0xE2, CHR 0x9D, CHR 0x8C] @ '' Docker '' @ [CHR 0xE6, CHR 0x9C, CHR 0xAA, CHR 0xE9, CHR 0x81, CHR 0x8B, CHR 0xE8, CHR 0xA1, CHR 0x8C, CHR 0xEF, CHR 0xBC, CHR 0x81, CHR 0xE8, CHR 0xAB, CHR 0x8B, CHR 0xE5, CHR 0x85, CHR 0x88, CHR 0xE5, CHR 0x95, CHR 0x9F, CHR 0xE5, CHR 0x8B, CHR 0x95] @ '' Docker Desktop''"

definition echo_docker_up :: string where
  \<comment> \<open>U+1F433 U+555F U+52D5 U+670D U+52D9\<close>
  "echo_docker_up =
     [CHR 0xF0, CHR 0x9F, CHR 0x90, CHR 0xB3] @ '' '' @ [CHR 0xE5, CHR 0x95, CHR 0x9F, CHR 0xE5, CHR 0x8B, CHR 0x95] @ '' Docker '' @ [CHR 0xE6, CHR 0x9C, CHR 0x8D, CHR 0xE5, CHR 0x8B, CHR 0x99] @ '' (MongoDB, Redis)...''"

definition echo_watchdog :: string where
  \<comment> \<open>U+1F680 U+555F U+52D5\<close>
  "echo_watchdog =
     [CHR 0xF0, CHR 0x9F, CHR 0x9A, CHR 0x80] @ '' '' @ [CHR 0xE5, CHR 0x95, CHR 0x9F, CHR 0xE5, CHR 0x8B, CHR 0x95] @ '' Watchdog...''"

section \<open>The data model\<close>

text \<open>
  The interface \<open>SyncStatus\<close>: every field is optional, \<open>None\<close> is the absent
  field (\<open>undefined\<close>). The counters are integers: the values the backend sends are
  counts, and the fractional and not-a-number values of a \<open>number\<close> are left out.
\<close>

record SyncStatus =
  job :: "string option"
  status :: "string option"
  total :: "int option"
  inserted :: "int option"
  updated :: "int option"
  errors :: "int option"
  finished_at :: "string option"
  message :: "string option"

section \<open>Display helpers\<close>

text \<open>\<open>getStatusType\<close>: the \<open>switch\<close> over the optional status string.\<close>

definition getStatusType :: "string option \<Rightarrow> string" where
  "getStatusType st =
     (if st = Some ''completed'' then ''success''
      else if st = Some ''running'' then ''warning''
      else if st = Some ''failed'' then ''danger''
      else if st = Some ''never_run'' then ''info''
      else ''info'')"

text \<open>\<open>getStatusText\<close>: the same \<open>switch\<close>, to the tag's text.\<close>

definition getStatusText :: "string option \<Rightarrow> string" where
  "getStatusText st =
     (if st = Some ''completed'' then txt_completed
      else if st = Some ''running'' then txt_running
      else if st = Some ''failed'' then txt_failed
      else if st = Some ''never_run'' then txt_never_run
      else txt_unknown)"

text \<open>
  What the platform supplies and the source only calls: \<open>toLocaleString\<close> is
  \<open>new Date(time).toLocaleString('zh-TW')\<close> as a function of the time string (it
  depends on the engine's locale data and time zone), and \<open>cannotRead n\<close> is the
  message of the \<open>TypeError\<close> the engine throws when the property named \<open>n\<close> of
  \<open>undefined\<close> is read.
\<close>

record platform =
  toLocaleString :: "string \<Rightarrow> string"
  cannotRead :: "string \<Rightarrow> string"

text \<open>\<open>!time\<close> holds for an absent and for an empty string.\<close>

definition truthy_string :: "string option \<Rightarrow> bool" where
  "truthy_string t = (case t of None \<Rightarrow> False | Some x \<Rightarrow> x \<noteq> [])"

definition formatTime :: "platform \<Rightarrow> string option \<Rightarrow> string" where
  "formatTime p time =
     (if \<not> truthy_string time then []
      else case time of None \<Rightarrow> [] | Some t \<Rightarrow> toLocaleString p t)"

section \<open>JavaScript values the handlers touch\<close>

text \<open>
  A thrown value is read only through its \<open>message\<close> property (\<open>err.message\<close>), so
  it is modelled by that property, absent when the value has none.
\<close>

datatype thrown = Thrown (err_message: "string option")

text \<open>
  Reading a property of \<open>undefined\<close> (or \<open>null\<close>) throws a \<open>TypeError\<close>;
  optional chaining \<open>?.\<close> gives \<open>undefined\<close> instead.
\<close>

definition read_prop :: "platform \<Rightarrow> 'o option \<Rightarrow> string \<Rightarrow> ('o \<Rightarrow> 'a) \<Rightarrow> thrown + 'a" where
  "read_prop p obj name f =
     (case obj of
        None \<Rightarrow> Inl (Thrown (Some (cannotRead p name)))
      | Some x \<Rightarrow> Inr (f x))"

definition opt_chain :: "'o option \<Rightarrow> ('o \<Rightarrow> 'a option) \<Rightarrow> 'a option" where
  "opt_chain obj f = (case obj of None \<Rightarrow> None | Some x \<Rightarrow> f x)"

text \<open>The decimal digits of a natural number, most significant first.\<close>

fun digit_chars :: "nat \<Rightarrow> string" where
  "digit_chars n =
     (if n < 10 then [''0123456789'' ! n]
      else digit_chars (n div 10) @ [''0123456789'' ! (n mod 10)])"

declare digit_chars.simps [simp del]

text \<open>
  \<open>String(n)\<close> for an integer \<open>n\<close>: plain decimal digits, which is what the
  engine prints for the integers a \<open>number\<close> holds exactly.
\<close>

definition String_number :: "int \<Rightarrow> string" where
  "String_number i = (if i < 0 then ''-'' @ digit_chars (nat (- i)) else digit_chars (nat i))"

text \<open>
  A template literal's \<open>${v}\<close>: an absent value prints as \<open>undefined\<close>.
\<close>

definition template_string :: "string option \<Rightarrow> string" where
  "template_string v = (case v of None \<Rightarrow> ''undefined'' | Some x \<Rightarrow> x)"

definition template_number :: "int option \<Rightarrow> string" where
  "template_number v = (case v of None \<Rightarrow> ''undefined'' | Some n \<Rightarrow> String_number n)"

text \<open>\<open>v || 0\<close> on an optional number: absent and \<open>0\<close> are falsy.\<close>

definition or_zero :: "int option \<Rightarrow> int" where
  "or_zero v = (case v of None \<Rightarrow> 0 | Some n \<Rightarrow> if n = 0 then 0 else n)"

section \<open>The backend as the component sees it\<close>

text \<open>
  The response envelope \<open>{ success, data?, message? }\<close>, read by the handlers as
  \<open>res.success\<close>, \<open>res.data\<close> and \<open>res.message\<close>. The module \<open>@/api/request\<close> is not
  part of the sources: what an \<open>await request...\<close> gives back is an input of the
  model, either a rejection with the thrown value or an envelope.
\<close>

record 'd envelope =
  res_success :: bool
  res_data :: "'d option"
  res_message :: "string option"

datatype 'd outcome = Rejected thrown | Resolved "'d envelope"

text \<open>The payload of the trigger for both sources: \<open>res.data.hk\<close>, \<open>res.data.us\<close>.\<close>

record foreign_data =
  hk :: "SyncStatus option"
  us :: "SyncStatus option"

text \<open>A request as handed to \<open>request.get\<close> or \<open>request.post\<close>.\<close>

record sync_body =
  force :: bool

datatype http_request = GET string | POST string sync_body

section \<open>The component's state and its effects\<close>

datatype msg_kind = MsgInfo | MsgSuccess | MsgError

text \<open>
  The five refs of the component, and the effects it has on the outside, each as the
  list of calls made so far: \<open>ElMessage\<close> notifications, \<open>console.error\<close> entries and
  requests issued.
\<close>

record component =
  hkStatus :: "SyncStatus option"
  usStatus :: "SyncStatus option"
  hkSyncing :: bool
  usSyncing :: bool
  allSyncing :: bool
  notifications :: "(msg_kind \<times> string) list"
  console_errors :: "(string \<times> thrown) list"
  requests :: "http_request list"

definition initial :: component where
  "initial = \<lparr> hkStatus = None, usStatus = None, hkSyncing = False, usSyncing = False,
     allSyncing = False, notifications = [], console_errors = [], requests = [] \<rparr>"

definition ElMessage :: "msg_kind \<Rightarrow> string \<Rightarrow> component \<Rightarrow> component" where
  "ElMessage k txt s = s\<lparr> notifications := notifications s @ [(k, txt)] \<rparr>"

definition console_error :: "string \<Rightarrow> thrown \<Rightarrow> component \<Rightarrow> component" where
  "console_error label err s = s\<lparr> console_errors := console_errors s @ [(label, err)] \<rparr>"

definition send :: "http_request \<Rightarrow> component \<Rightarrow> component" where
  "send r s = s\<lparr> requests := requests s @ [r] \<rparr>"

section \<open>The asynchronous handlers\<close>

text \<open>
  An \<open>async\<close> function with one \<open>await\<close> runs in two synchronous parts: from the call
  to the \<open>await\<close> (\<open>_begin\<close>, which issues the request) and from the \<open>await\<close> to the
  end (\<open>_resume\<close>, which receives the outcome). Each part is a function on the
  component's state.
\<close>

definition fetchHKStatus_begin :: "component \<Rightarrow> component" where
  "fetchHKStatus_begin s = send (GET ''/api/sync/multi-source/hk/status'') s"

definition fetchHKStatus_resume :: "SyncStatus outcome \<Rightarrow> component \<Rightarrow> component" where
  "fetchHKStatus_resume out s =
     (case out of
        Rejected err \<Rightarrow> console_error log_hk_status_failed err s
      | Resolved res \<Rightarrow>
          if res_success res then s\<lparr> hkStatus := res_data res \<rparr> else s)"

definition fetchUSStatus_begin :: "component \<Rightarrow> component" where
  "fetchUSStatus_begin s = send (GET ''/api/sync/multi-source/us/status'') s"

definition fetchUSStatus_resume :: "SyncStatus outcome \<Rightarrow> component \<Rightarrow> component" where
  "fetchUSStatus_resume out s =
     (case out of
        Rejected err \<Rightarrow> console_error log_us_status_failed err s
      | Resolved res \<Rightarrow>
          if res_success res then s\<lparr> usStatus := res_data res \<rparr> else s)"

text \<open>
  The triggers. \<open>_try\<close> is the part of the \<open>try\<close> block after the \<open>await\<close>: it gives
  the value thrown, if any, and the state reached; \<open>_resume\<close> adds the \<open>catch\<close> and the
  \<open>finally\<close>.
\<close>

definition syncHK_begin :: "component \<Rightarrow> component" where
  "syncHK_begin s =
     send (POST ''/api/sync/multi-source/hk/sync'' \<lparr> force = False \<rparr>)
       (ElMessage MsgInfo msg_hk_start (s\<lparr> hkSyncing := True \<rparr>))"

definition syncHK_try :: "platform \<Rightarrow> SyncStatus outcome \<Rightarrow> component \<Rightarrow> thrown option \<times> component" where
  "syncHK_try p out s =
     (case out of
        Rejected err \<Rightarrow> (Some err, s)
      | Resolved res \<Rightarrow>
          if res_success res then
            (let s1 = s\<lparr> hkStatus := res_data res \<rparr> in
             case read_prop p (res_data res) ''total'' total of
               Inl err \<Rightarrow> (Some err, s1)
             | Inr t \<Rightarrow> (None, ElMessage MsgSuccess (msg_hk_done @ template_number t @ msg_unit) s1))
          else (None, ElMessage MsgError (msg_hk_failed @ template_string (res_message res)) s))"

definition syncHK_resume :: "platform \<Rightarrow> SyncStatus outcome \<Rightarrow> component \<Rightarrow> component" where
  "syncHK_resume p out s =
     (case syncHK_try p out s of
        (None, s1) \<Rightarrow> s1\<lparr> hkSyncing := False \<rparr>
      | (Some err, s1) \<Rightarrow>
          (ElMessage MsgError (msg_hk_failed @ template_string (err_message err)) s1)
            \<lparr> hkSyncing := False \<rparr>)"

definition syncUS_begin :: "component \<Rightarrow> component" where
  "syncUS_begin s =
     send (POST ''/api/sync/multi-source/us/sync'' \<lparr> force = False \<rparr>)
       (ElMessage MsgInfo msg_us_start (s\<lparr> usSyncing := True \<rparr>))"

definition syncUS_try :: "platform \<Rightarrow> SyncStatus outcome \<Rightarrow> component \<Rightarrow> thrown option \<times> component" where
  "syncUS_try p out s =
     (case out of
        Rejected err \<Rightarrow> (Some err, s)
      | Resolved res \<Rightarrow>
          if res_success res then
            (let s1 = s\<lparr> usStatus := res_data res \<rparr> in
             case read_prop p (res_data res) ''total'' total of
               Inl err \<Rightarrow> (Some err, s1)
             | Inr t \<Rightarrow> (None, ElMessage MsgSuccess (msg_us_done @ template_number t @ msg_unit) s1))
          else (None, ElMessage MsgError (msg_us_failed @ template_string (res_message res)) s))"

definition syncUS_resume :: "platform \<Rightarrow> SyncStatus outcome \<Rightarrow> component \<Rightarrow> component" where
  "syncUS_resume p out s =
     (case syncUS_try p out s of
        (None, s1) \<Rightarrow> s1\<lparr> usSyncing := False \<rparr>
      | (Some err, s1) \<Rightarrow>
          (ElMessage MsgError (msg_us_failed @ template_string (err_message err)) s1)
            \<lparr> usSyncing := False \<rparr>)"

definition syncAll_begin :: "component \<Rightarrow> component" where
  "syncAll_begin s =
     send (POST ''/api/sync/multi-source/foreign/sync'' \<lparr> force = False \<rparr>)
       (ElMessage MsgInfo msg_all_start (s\<lparr> allSyncing := True \<rparr>))"

definition syncAll_try :: "platform \<Rightarrow> foreign_data outcome \<Rightarrow> component \<Rightarrow> thrown option \<times> component" where
  "syncAll_try p out s =
     (case out of
        Rejected err \<Rightarrow> (Some err, s)
      | Resolved res \<Rightarrow>
          if res_success res then
            (case read_prop p (res_data res) ''hk'' hk of
               Inl err \<Rightarrow> (Some err, s)
             | Inr h \<Rightarrow>
                 (let s1 = s\<lparr> hkStatus := h \<rparr> in
                  case read_prop p (res_data res) ''us'' us of
                    Inl err \<Rightarrow> (Some err, s1)
                  | Inr u \<Rightarrow> (None, ElMessage MsgSuccess msg_all_done (s1\<lparr> usStatus := u \<rparr>))))
          else (None, ElMessage MsgError (msg_all_failed @ template_string (res_message res)) s))"

definition syncAll_resume :: "platform \<Rightarrow> foreign_data outcome \<Rightarrow> component \<Rightarrow> component" where
  "syncAll_resume p out s =
     (case syncAll_try p out s of
        (None, s1) \<Rightarrow> s1\<lparr> allSyncing := False \<rparr>
      | (Some err, s1) \<Rightarrow>
          (ElMessage MsgError (msg_all_failed @ template_string (err_message err)) s1)
            \<lparr> allSyncing := False \<rparr>)"

text \<open>\<open>onMounted\<close>: both status fetches are started, one after the other.\<close>

definition onMounted :: "component \<Rightarrow> component" where
  "onMounted s = fetchUSStatus_begin (fetchHKStatus_begin s)"

section \<open>The template\<close>

text \<open>
  The rendered tree. Each constructor keeps what the template sets on the element: a
  \<open>div\<close> its class and children, a \<open>span\<close> its class and text, \<open>el-card\<close> its class,
  shadow, header slot and default slot, \<open>el-icon\<close> its class and icon, \<open>el-tag\<close> its
  type, size and text, \<open>el-button\<close> its type, size, \<open>loading\<close> binding, click handler
  and children.
\<close>

datatype handler = SyncHK | SyncUS | SyncAll

datatype vnode =
    Div string "vnode list"
  | Span string string
  | ElCard string string "vnode list" "vnode list"
  | ElIcon string string
  | ElTag string string string
  | ElButton string string bool handler "vnode list"
  | ElDivider
  | Text string

text \<open>
  Evaluating a template expression can throw (a property read on \<open>null\<close>), so each
  part of the template gives \<open>Inl\<close> the thrown value or \<open>Inr\<close> what it renders.
\<close>

definition bind_t :: "thrown + 'a \<Rightarrow> ('a \<Rightarrow> thrown + 'b) \<Rightarrow> thrown + 'b" where
  "bind_t m f = (case m of Inl err \<Rightarrow> Inl err | Inr x \<Rightarrow> f x)"

text \<open>
  \<open>v-if="hkStatus && hkStatus.status !== 'never_run'"\<close>: \<open>&&\<close> reads the property only
  when the status object is there.
\<close>

definition show_stats :: "platform \<Rightarrow> SyncStatus option \<Rightarrow> thrown + bool" where
  "show_stats p st =
     (if st = None then Inr False
      else bind_t (read_prop p st ''status'' status) (\<lambda>v. Inr (v \<noteq> Some ''never_run'')))"

text \<open>\<open>v-if="hkStatus.finished_at"\<close>.\<close>

definition show_sync_time :: "platform \<Rightarrow> SyncStatus option \<Rightarrow> thrown + bool" where
  "show_sync_time p st =
     bind_t (read_prop p st ''finished_at'' finished_at) (\<lambda>f. Inr (truthy_string f))"

definition stat_row :: "platform \<Rightarrow> SyncStatus option \<Rightarrow> thrown + vnode" where
  "stat_row p st =
     bind_t (read_prop p st ''total'' total) (\<lambda>t.
     bind_t (read_prop p st ''inserted'' inserted) (\<lambda>i.
     bind_t (read_prop p st ''updated'' updated) (\<lambda>u.
       Inr (Div ''stat-row''
         [Span ''stat-label'' txt_total_label,
          Span ''stat-value'' (String_number (or_zero t)),
          Span ''stat-label'' txt_inserted_label,
          Span ''stat-value success'' (String_number (or_zero i)),
          Span ''stat-label'' txt_updated_label,
          Span ''stat-value primary'' (String_number (or_zero u))]))))"

definition sync_time :: "platform \<Rightarrow> SyncStatus option \<Rightarrow> thrown + vnode list" where
  "sync_time p st =
     bind_t (show_sync_time p st) (\<lambda>b.
       if b then
         bind_t (read_prop p st ''finished_at'' finished_at) (\<lambda>f.
           Inr [Div ''sync-time'' [Text (txt_finished_label @ formatTime p f)]])
       else Inr [])"

definition market_stats :: "platform \<Rightarrow> SyncStatus option \<Rightarrow> thrown + vnode list" where
  "market_stats p st =
     bind_t (show_stats p st) (\<lambda>b.
       if b then
         bind_t (stat_row p st) (\<lambda>row.
         bind_t (sync_time p st) (\<lambda>tm.
           Inr [Div ''market-stats'' (row # tm)]))
       else Inr [])"

definition market_header :: "string \<Rightarrow> string \<Rightarrow> SyncStatus option \<Rightarrow> vnode" where
  "market_header flag title st =
     Div ''market-header''
       [Span ''market-flag'' flag,
        Span ''market-title'' title,
        ElTag (getStatusType (opt_chain st status)) ''small''
          (getStatusText (opt_chain st status))]"

text \<open>
  The two market blocks of the template are the same markup over \<open>hkStatus\<close>,
  \<open>hkSyncing\<close>, \<open>syncHK\<close> and over \<open>usStatus\<close>, \<open>usSyncing\<close>, \<open>syncUS\<close>.
\<close>

definition market_section ::
  "platform \<Rightarrow> string \<Rightarrow> string \<Rightarrow> SyncStatus option \<Rightarrow> bool \<Rightarrow> handler \<Rightarrow> string \<Rightarrow> thrown + vnode" where
  "market_section p flag title st syncing h label =
     bind_t (market_stats p st) (\<lambda>stats.
       Inr (Div ''market-section''
         ([market_header flag title st] @ stats @
          [ElButton ''primary'' ''default'' syncing h [ElIcon [] ''Refresh'', Text label]])))"

definition hk_section :: "platform \<Rightarrow> component \<Rightarrow> thrown + vnode" where
  "hk_section p s =
     market_section p txt_hk_flag txt_hk_title (hkStatus s) (hkSyncing s) SyncHK txt_hk_button"

definition us_section :: "platform \<Rightarrow> component \<Rightarrow> thrown + vnode" where
  "us_section p s =
     market_section p txt_us_flag txt_us_title (usStatus s) (usSyncing s) SyncUS txt_us_button"

definition sync_all_section :: "component \<Rightarrow> vnode" where
  "sync_all_section s =
     Div ''sync-all-section''
       [ElButton ''success'' ''large'' (allSyncing s) SyncAll
          [ElIcon [] ''Refresh'', Text txt_all_button]]"

definition render :: "platform \<Rightarrow> component \<Rightarrow> thrown + vnode" where
  "render p s =
     bind_t (hk_section p s) (\<lambda>hkv.
     bind_t (us_section p s) (\<lambda>usv.
       Inr (Div ''foreign-sync-control''
         [ElCard ''control-card'' ''hover''
            [Div ''card-header''
               [ElIcon ''header-icon'' ''Flag'', Span ''header-title'' txt_header_title]]
            [Div ''control-content''
               [hkv, ElDivider, usv, ElDivider, sync_all_section s]]])))"

text \<open>The class names that occur in a rendered tree.\<close>

fun classes :: "vnode \<Rightarrow> string list" where
  "classes (Div c cs) = c # concat (map classes cs)"
| "classes (Span c t) = [c]"
| "classes (ElCard c sh hs bs) = c # concat (map classes hs) @ concat (map classes bs)"
| "classes (ElIcon c i) = [c]"
| "classes (ElTag ty sz t) = []"
| "classes (ElButton ty sz l h cs) = concat (map classes cs)"
| "classes ElDivider = []"
| "classes (Text t) = []"

text \<open>The \<open>loading\<close> binding of the button that calls a given handler.\<close>

fun loading_of :: "handler \<Rightarrow> vnode \<Rightarrow> bool list" where
  "loading_of h (Div c cs) = concat (map (loading_of h) cs)"
| "loading_of h (Span c t) = []"
| "loading_of h (ElCard c sh hs bs) =
     concat (map (loading_of h) hs) @ concat (map (loading_of h) bs)"
| "loading_of h (ElIcon c i) = []"
| "loading_of h (ElTag ty sz t) = []"
| "loading_of h (ElButton ty sz l h' cs) = (if h' = h then [l] else [])"
| "loading_of h ElDivider = []"
| "loading_of h (Text t) = []"

section \<open>Events and frames\<close>

text \<open>
  The component runs on the event loop: each synchronous part of a handler runs to its
  end before anything else does, and the framework re-renders after it, not between
  its statements. An event is the mount, a click delivered to a handler, or the
  arrival of the outcome one of the five requests was waiting for.
\<close>

datatype event =
    Mounted
  | Click handler
  | HKStatusOutcome "SyncStatus outcome"
  | USStatusOutcome "SyncStatus outcome"
  | HKSyncOutcome "SyncStatus outcome"
  | USSyncOutcome "SyncStatus outcome"
  | AllSyncOutcome "foreign_data outcome"

fun step :: "platform \<Rightarrow> event \<Rightarrow> component \<Rightarrow> component" where
  "step p Mounted s = onMounted s"
| "step p (Click SyncHK) s = syncHK_begin s"
| "step p (Click SyncUS) s = syncUS_begin s"
| "step p (Click SyncAll) s = syncAll_begin s"
| "step p (HKStatusOutcome out) s = fetchHKStatus_resume out s"
| "step p (USStatusOutcome out) s = fetchUSStatus_resume out s"
| "step p (HKSyncOutcome out) s = syncHK_resume p out s"
| "step p (USSyncOutcome out) s = syncUS_resume p out s"
| "step p (AllSyncOutcome out) s = syncAll_resume p out s"

text \<open>The states after each event of a run: the states the user is shown.\<close>

fun shown :: "platform \<Rightarrow> event list \<Rightarrow> component \<Rightarrow> component list" where
  "shown p [] s = []"
| "shown p (e # es) s = step p e s # shown p es (step p e s)"

definition frames :: "platform \<Rightarrow> event list \<Rightarrow> component \<Rightarrow> (thrown + vnode) list" where
  "frames p es s = map (render p) (shown p es s)"

section \<open>The startup script\<close>

text \<open>
  The script as a list of commands. A word is a list of parts: literal text, a variable
  (\<open>$0\<close> is the variable \<open>0\<close>) or a command substitution \<open>$(...)\<close>. A simple command
  carries its words and its redirections.
\<close>

datatype part = Lit string | Var string | CmdSub "part list list"

datatype sh_cmd =
    Simple "part list list" "string list"
  | Assign string "part list"
  | IfNot "part list list" "string list" "sh_cmd list"
  | Exit nat

text \<open>
  What the machine answers: the exit status of a command and the output a command
  substitution captures, both as functions of the expanded words.
\<close>

record sh_env =
  status_of :: "string list \<Rightarrow> nat"
  output_of :: "string list \<Rightarrow> string"

datatype action = Exec "string list" | Out string

record sh_state =
  vars :: "string \<Rightarrow> string"
  trace :: "action list"
  last_status :: nat

fun expand :: "sh_env \<Rightarrow> (string \<Rightarrow> string) \<Rightarrow> part \<Rightarrow> string" where
  "expand env vs (Lit t) = t"
| "expand env vs (Var v) = vs v"
| "expand env vs (CmdSub ws) = output_of env (map (\<lambda>w. concat (map (expand env vs) w)) ws)"

definition expand_word :: "sh_env \<Rightarrow> (string \<Rightarrow> string) \<Rightarrow> part list \<Rightarrow> string" where
  "expand_word env vs w = concat (map (expand env vs) w)"

text \<open>The words of \<open>echo\<close>, joined by single spaces.\<close>

fun unwords :: "string list \<Rightarrow> string" where
  "unwords [] = []"
| "unwords [w] = w"
| "unwords (w # ws) = w @ '' '' @ unwords ws"

text \<open>
  A simple command: \<open>echo\<close> prints its arguments and succeeds; every other command is
  recorded with its expanded words, and the machine gives its exit status.
\<close>

definition run_simple :: "sh_env \<Rightarrow> part list list \<Rightarrow> sh_state \<Rightarrow> sh_state" where
  "run_simple env ws st =
     (case map (expand_word env (vars st)) ws of
        [] \<Rightarrow> st
      | c # args \<Rightarrow>
          if c = ''echo'' then st\<lparr> trace := trace st @ [Out (unwords args)], last_status := 0 \<rparr>
          else st\<lparr> trace := trace st @ [Exec (c # args)], last_status := status_of env (c # args) \<rparr>)"

text \<open>
  The status of an assignment is that of the last command substitution in its word,
  and 0 when it has none.
\<close>

fun subst_status :: "sh_env \<Rightarrow> (string \<Rightarrow> string) \<Rightarrow> part list \<Rightarrow> nat \<Rightarrow> nat" where
  "subst_status env vs [] acc = acc"
| "subst_status env vs (CmdSub ws # w) acc =
     subst_status env vs w (status_of env (map (expand_word env vs) ws))"
| "subst_status env vs (x # w) acc = subst_status env vs w acc"

text \<open>
  Running a list of commands gives the state reached and, when an \<open>exit n\<close> was
  executed, \<open>Some n\<close>. \<open>if ! c; then body; fi\<close> runs \<open>body\<close> when \<open>c\<close> fails; the status
  before the body, and after an \<open>if\<close> whose body did not run, is 0.
\<close>

fun exec :: "sh_env \<Rightarrow> sh_cmd list \<Rightarrow> sh_state \<Rightarrow> sh_state \<times> nat option" where
  "exec env [] st = (st, None)"
| "exec env (Simple ws rs # cs) st = exec env cs (run_simple env ws st)"
| "exec env (Assign v w # cs) st =
     exec env cs (st\<lparr> vars := (vars st)(v := expand_word env (vars st) w),
                      last_status := subst_status env (vars st) w 0 \<rparr>)"
| "exec env (IfNot ws rs body # cs) st =
     (let st1 = run_simple env ws st in
      if last_status st1 \<noteq> 0 then
        (case exec env body (st1\<lparr> last_status := 0 \<rparr>) of
           (st2, Some n) \<Rightarrow> (st2, Some n)
         | (st2, None) \<Rightarrow> exec env cs st2)
      else exec env cs (st1\<lparr> last_status := 0 \<rparr>))"
| "exec env (Exit n # cs) st = (st, Some n)"

text \<open>
  How a run ends: by an \<open>exit\<close> of the script, or after its last command, whose status
  is then the script's.
\<close>

datatype sh_end = ByExit nat | AtEnd nat

definition run_script :: "sh_env \<Rightarrow> (string \<Rightarrow> string) \<Rightarrow> sh_cmd list \<Rightarrow> action list \<times> sh_end" where
  "run_script env vs cs =
     (case exec env cs \<lparr> vars = vs, trace = [], last_status = 0 \<rparr> of
        (st, Some n) \<Rightarrow> (trace st, ByExit n)
      | (st, None) \<Rightarrow> (trace st, AtEnd (last_status st)))"

text \<open>The codes of the \<open>exit\<close> commands written in a script.\<close>

fun exits :: "sh_cmd \<Rightarrow> nat list" where
  "exits (Simple ws rs) = []"
| "exits (Assign v w) = []"
| "exits (IfNot ws rs body) = concat (map exits body)"
| "exits (Exit n) = [n]"

definition startup_script :: "sh_cmd list" where
  "startup_script =
     [Simple [[Lit ''cd''], [CmdSub [[Lit ''dirname''], [Var ''0'']], Lit ''/..'']] [],
      Assign ''PROJECT_DIR'' [CmdSub [[Lit ''pwd'']]],
      Simple [[Lit ''echo''], [Lit echo_banner]] [],
      Simple [[Lit ''echo''], [Lit echo_project_dir, Var ''PROJECT_DIR'']] [],
      Simple [[Lit ''echo''], [Lit []]] [],
      IfNot [[Lit ''docker''], [Lit ''info'']] [''> /dev/null'', ''2>&1'']
        [Simple [[Lit ''echo''], [Lit echo_docker_down]] [],
         Exit 1],
      Simple [[Lit ''echo''], [Lit echo_docker_up]] [],
      Simple [[Lit ''docker-compose''], [Lit ''up''], [Lit ''-d''], [Lit ''mongodb''], [Lit ''redis'']] [],
      Simple [[Lit ''sleep''], [Lit ''3'']] [],
      Simple [[Lit ''echo''], [Lit echo_watchdog]] [],
      Simple [[Lit ''source''], [Lit ''.venv/bin/activate'']] [],
      Simple [[Lit ''python''], [Lit ''scripts/watchdog.py'']] []]"

section \<open>Sample inputs\<close>

text \<open>A platform for concrete runs: both of its functions give their argument back.\<close>

definition sample_platform :: platform where
  "sample_platform = \<lparr> toLocaleString = (\<lambda>t. t), cannotRead = (\<lambda>n. n) \<rparr>"

section \<open>Basic facts\<close>

lemma read_prop_Some [simp]: "read_prop p (Some x) n f = Inr (f x)"
  by (simp add: read_prop_def)

lemma read_prop_None [simp]: "read_prop p None n f = Inl (Thrown (Some (cannotRead p n)))"
  by (simp add: read_prop_def)

lemma bind_t_Inr [simp]: "bind_t (Inr x) f = f x"
  by (simp add: bind_t_def)

lemma bind_t_Inl [simp]: "bind_t (Inl e) f = Inl e"
  by (simp add: bind_t_def)

lemma String_number_0: "String_number 0 = ''0''"
  by (simp add: String_number_def digit_chars.simps)

lemma or_zero_falsy: "or_zero None = 0" "or_zero (Some 0) = 0"
  by (simp_all add: or_zero_def)

subsection \<open>The statistics block\<close>

lemma show_stats_None: "show_stats p None = Inr False"
  by (simp add: show_stats_def)

lemma show_stats_Some: "show_stats p (Some x) = Inr (status x \<noteq> Some ''never_run'')"
  by (simp add: show_stats_def)

lemma stat_row_Some:
  "stat_row p (Some x) =
     Inr (Div ''stat-row''
         [Span ''stat-label'' txt_total_label,
          Span ''stat-value'' (String_number (or_zero (total x))),
          Span ''stat-label'' txt_inserted_label,
          Span ''stat-value success'' (String_number (or_zero (inserted x))),
          Span ''stat-label'' txt_updated_label,
          Span ''stat-value primary'' (String_number (or_zero (updated x)))])"
  by (simp add: stat_row_def)

lemma sync_time_Some:
  "sync_time p (Some x) =
     Inr (if truthy_string (finished_at x)
          then [Div ''sync-time'' [Text (txt_finished_label @ formatTime p (finished_at x))]]
          else [])"
  by (simp add: sync_time_def show_sync_time_def)

lemma market_stats_None: "market_stats p None = Inr []"
  by (simp add: market_stats_def show_stats_None)

lemma market_stats_Some:
  "market_stats p (Some x) =
     (if status x \<noteq> Some ''never_run''
      then Inr [Div ''market-stats''
             (Div ''stat-row''
               [Span ''stat-label'' txt_total_label,
                Span ''stat-value'' (String_number (or_zero (total x))),
                Span ''stat-label'' txt_inserted_label,
                Span ''stat-value success'' (String_number (or_zero (inserted x))),
                Span ''stat-label'' txt_updated_label,
                Span ''stat-value primary'' (String_number (or_zero (updated x)))]
              # (if truthy_string (finished_at x)
                 then [Div ''sync-time'' [Text (txt_finished_label @ formatTime p (finished_at x))]]
                 else []))]
      else Inr [])"
  by (simp add: market_stats_def show_stats_Some stat_row_Some sync_time_Some)

lemma market_stats_total: "\<exists>v. market_stats p st = Inr v"
  by (cases st) (simp_all add: market_stats_None market_stats_Some)

lemma market_stats_no_button:
  assumes "market_stats p st = Inr v"
  shows "concat (map (loading_of h) v) = []"
  using assms
  by (cases st) (auto simp: market_stats_None market_stats_Some split: if_splits)

lemma market_section_total: "\<exists>v. market_section p flag title st syncing h label = Inr v"
  using market_stats_total [of p st] by (auto simp: market_section_def)

lemma render_total: "\<exists>v. render p s = Inr v"
proof -
  obtain a where a: "hk_section p s = Inr a"
    using market_section_total unfolding hk_section_def by blast
  obtain b where b: "us_section p s = Inr b"
    using market_section_total unfolding us_section_def by blast
  show ?thesis by (simp add: render_def a b)
qed

lemma render_loading:
  "\<exists>v. render p s = Inr v \<and> loading_of SyncHK v = [hkSyncing s]
      \<and> loading_of SyncUS v = [usSyncing s] \<and> loading_of SyncAll v = [allSyncing s]"
proof -
  obtain a where a: "market_stats p (hkStatus s) = Inr a"
    using market_stats_total by blast
  obtain b where b: "market_stats p (usStatus s) = Inr b"
    using market_stats_total by blast
  note la = market_stats_no_button [OF a] and lb = market_stats_no_button [OF b]
  show ?thesis
    by (simp add: render_def hk_section_def us_section_def market_section_def a b la lb
        market_header_def sync_all_section_def)
qed

subsection \<open>The handlers, case by case\<close>

lemma syncHK_failure:
  "\<not> res_success res \<Longrightarrow>
   syncHK_resume p (Resolved res) s =
     s\<lparr> notifications :=
          notifications s @ [(MsgError, msg_hk_failed @ template_string (res_message res))],
        hkSyncing := False \<rparr>"
  by (simp add: syncHK_resume_def syncHK_try_def ElMessage_def)

lemma syncUS_failure:
  "\<not> res_success res \<Longrightarrow>
   syncUS_resume p (Resolved res) s =
     s\<lparr> notifications :=
          notifications s @ [(MsgError, msg_us_failed @ template_string (res_message res))],
        usSyncing := False \<rparr>"
  by (simp add: syncUS_resume_def syncUS_try_def ElMessage_def)

lemma syncAll_failure:
  "\<not> res_success res \<Longrightarrow>
   syncAll_resume p (Resolved res) s =
     s\<lparr> notifications :=
          notifications s @ [(MsgError, msg_all_failed @ template_string (res_message res))],
        allSyncing := False \<rparr>"
  by (simp add: syncAll_resume_def syncAll_try_def ElMessage_def)

lemma sublist_template: "sublist m (pre @ template_string (Some m))"
  by (simp add: template_string_def)

lemma syncHK_success:
  "res_success res \<Longrightarrow> hkStatus (syncHK_resume p (Resolved res) s) = res_data res"
  by (simp add: syncHK_resume_def syncHK_try_def ElMessage_def read_prop_def Let_def
      split: option.splits)

lemma syncUS_success:
  "res_success res \<Longrightarrow> usStatus (syncUS_resume p (Resolved res) s) = res_data res"
  by (simp add: syncUS_resume_def syncUS_try_def ElMessage_def read_prop_def Let_def
      split: option.splits)

lemma syncAll_success:
  "res_success res \<Longrightarrow> res_data res = Some d \<Longrightarrow>
   syncAll_resume p (Resolved res) s =
     s\<lparr> hkStatus := hk d, usStatus := us d,
        notifications := notifications s @ [(MsgSuccess, msg_all_done)],
        allSyncing := False \<rparr>"
  by (simp add: syncAll_resume_def syncAll_try_def ElMessage_def)

lemma syncHK_resume_flag: "hkSyncing (syncHK_resume p out s) = False"
  by (simp add: syncHK_resume_def split: prod.splits option.splits)

lemma syncUS_resume_flag: "usSyncing (syncUS_resume p out s) = False"
  by (simp add: syncUS_resume_def split: prod.splits option.splits)

lemma syncAll_resume_flag: "allSyncing (syncAll_resume p out s) = False"
  by (simp add: syncAll_resume_def split: prod.splits option.splits)

lemma syncHK_begin_eq:
  "syncHK_begin s =
     s\<lparr> hkSyncing := True,
        notifications := notifications s @ [(MsgInfo, msg_hk_start)],
        requests := requests s @ [POST ''/api/sync/multi-source/hk/sync'' \<lparr> force = False \<rparr>] \<rparr>"
  by (simp add: syncHK_begin_def send_def ElMessage_def)

lemma syncUS_begin_eq:
  "syncUS_begin s =
     s\<lparr> usSyncing := True,
        notifications := notifications s @ [(MsgInfo, msg_us_start)],
        requests := requests s @ [POST ''/api/sync/multi-source/us/sync'' \<lparr> force = False \<rparr>] \<rparr>"
  by (simp add: syncUS_begin_def send_def ElMessage_def)

lemma syncAll_begin_eq:
  "syncAll_begin s =
     s\<lparr> allSyncing := True,
        notifications := notifications s @ [(MsgInfo, msg_all_start)],
        requests := requests s @ [POST ''/api/sync/multi-source/foreign/sync'' \<lparr> force = False \<rparr>] \<rparr>"
  by (simp add: syncAll_begin_def send_def ElMessage_def)

section \<open>Properties of the component and of the script\<close>

text \<open>
  C1. When the backend answers a trigger (\<open>syncHK\<close>, \<open>syncUS\<close>, \<open>syncAll\<close>) with an
  envelope whose \<open>success\<close> is false, both status values are what they were before,
  and exactly one error notification is added, whose text is the handler's prefix
  followed by \<open>res.message\<close>; when the backend sent a message, the text contains it.
\<close>

theorem trigger_logical_failure:
  assumes "\<not> res_success res" and "\<not> res_success resA"
  shows
   "hkStatus (syncHK_resume p (Resolved res) s) = hkStatus s
    \<and> usStatus (syncHK_resume p (Resolved res) s) = usStatus s
    \<and> notifications (syncHK_resume p (Resolved res) s) =
        notifications s @ [(MsgError, msg_hk_failed @ template_string (res_message res))]
    \<and> hkStatus (syncUS_resume p (Resolved res) s) = hkStatus s
    \<and> usStatus (syncUS_resume p (Resolved res) s) = usStatus s
    \<and> notifications (syncUS_resume p (Resolved res) s) =
        notifications s @ [(MsgError, msg_us_failed @ template_string (res_message res))]
    \<and> hkStatus (syncAll_resume p (Resolved resA) s) = hkStatus s
    \<and> usStatus (syncAll_resume p (Resolved resA) s) = usStatus s
    \<and> notifications (syncAll_resume p (Resolved resA) s) =
        notifications s @ [(MsgError, msg_all_failed @ template_string (res_message resA))]
    \<and> (\<forall>m. res_message res = Some m \<longrightarrow>
          sublist m (msg_hk_failed @ template_string (res_message res))
          \<and> sublist m (msg_us_failed @ template_string (res_message res)))
    \<and> (\<forall>m. res_message resA = Some m \<longrightarrow>
          sublist m (msg_all_failed @ template_string (res_message resA)))
    \<and> hkStatus (syncHK_begin s) = hkStatus s \<and> usStatus (syncHK_begin s) = usStatus s
    \<and> hkStatus (syncUS_begin s) = hkStatus s \<and> usStatus (syncUS_begin s) = usStatus s
    \<and> hkStatus (syncAll_begin s) = hkStatus s \<and> usStatus (syncAll_begin s) = usStatus s"
  using assms
  by (simp add: syncHK_failure syncUS_failure syncAll_failure sublist_template
      syncHK_begin_eq syncUS_begin_eq syncAll_begin_eq)

text \<open>
  The scenario of the specification: the trigger for \<open>hk\<close> answered with
  \<open>{success: false, message: "rate limited"}\<close>.
\<close>

theorem trigger_logical_failure_witness:
  "\<not> res_success \<lparr> res_success = False, res_data = None :: SyncStatus option,
       res_message = Some ''rate limited'' \<rparr>
   \<and> \<not> res_success \<lparr> res_success = False, res_data = None :: foreign_data option,
       res_message = Some ''rate limited'' \<rparr>
   \<and> hkStatus (syncHK_resume sample_platform
        (Resolved \<lparr> res_success = False, res_data = None, res_message = Some ''rate limited'' \<rparr>)
        initial) = None
   \<and> notifications (syncHK_resume sample_platform
        (Resolved \<lparr> res_success = False, res_data = None, res_message = Some ''rate limited'' \<rparr>)
        initial) = [(MsgError, msg_hk_failed @ ''rate limited'')]
   \<and> sublist ''rate limited'' (msg_hk_failed @ ''rate limited'')
   \<and> notifications (syncAll_resume sample_platform
        (Resolved \<lparr> res_success = False, res_data = None, res_message = Some ''rate limited'' \<rparr>)
        initial) = [(MsgError, msg_all_failed @ ''rate limited'')]"
  using trigger_logical_failure
    [of "\<lparr> res_success = False, res_data = None, res_message = Some ''rate limited'' \<rparr>"
        "\<lparr> res_success = False, res_data = None, res_message = Some ''rate limited'' \<rparr>"
        sample_platform initial]
  by (simp add: template_string_def initial_def)

text \<open>
  C2, as the code has it. A status fetch (\<open>fetchHKStatus\<close>, \<open>fetchUSStatus\<close>) that is
  rejected leaves the state as it was but for one \<open>console.error\<close> entry: the status
  is retained, no notification is made, the failure is logged. A fetch answered with
  an envelope whose \<open>success\<close> is false leaves the whole state as it was: the status is
  retained, no notification is made, and nothing is logged either.
\<close>

theorem fetch_failure_retains_status:
  "fetchHKStatus_resume (Rejected err) s =
      s\<lparr> console_errors := console_errors s @ [(log_hk_status_failed, err)] \<rparr>
   \<and> fetchUSStatus_resume (Rejected err) s =
      s\<lparr> console_errors := console_errors s @ [(log_us_status_failed, err)] \<rparr>
   \<and> (\<not> res_success res \<longrightarrow>
        fetchHKStatus_resume (Resolved res) s = s \<and> fetchUSStatus_resume (Resolved res) s = s)
   \<and> fetchHKStatus_begin s = s\<lparr> requests := requests s @ [GET ''/api/sync/multi-source/hk/status''] \<rparr>
   \<and> fetchUSStatus_begin s = s\<lparr> requests := requests s @ [GET ''/api/sync/multi-source/us/status''] \<rparr>"
  by (simp add: fetchHKStatus_resume_def fetchUSStatus_resume_def console_error_def
      fetchHKStatus_begin_def fetchUSStatus_begin_def send_def)

theorem fetch_failure_retains_status_witness:
  "\<not> res_success \<lparr> res_success = False, res_data = None :: SyncStatus option,
       res_message = Some ''down'' \<rparr>
   \<and> fetchHKStatus_resume
        (Resolved \<lparr> res_success = False, res_data = None, res_message = Some ''down'' \<rparr>)
        initial = initial
   \<and> fetchUSStatus_resume
        (Resolved \<lparr> res_success = False, res_data = None, res_message = Some ''down'' \<rparr>)
        initial = initial
   \<and> console_errors (fetchHKStatus_resume (Rejected (Thrown (Some ''Network Error''))) initial) =
        [(log_hk_status_failed, Thrown (Some ''Network Error''))]"
  using fetch_failure_retains_status
    [of "Thrown (Some ''Network Error'')" initial
        "\<lparr> res_success = False, res_data = None, res_message = Some ''down'' \<rparr>"]
  by (simp add: initial_def)

text \<open>
  C2, as it is written, asks that the failure be logged. Answered with an envelope
  whose \<open>success\<close> is false, a fetch started on the fresh component logs nothing.
\<close>

theorem fetch_logical_failure_not_logged:
  "console_errors (fetchHKStatus_resume
      (Resolved \<lparr> res_success = False, res_data = None, res_message = Some ''rate limited'' \<rparr>)
      (fetchHKStatus_begin initial)) = []"
  by (simp add: fetchHKStatus_resume_def fetchHKStatus_begin_def send_def initial_def)

text \<open>
  C3. When the status held for a source is \<open>null\<close>, or its \<open>status\<close> field is
  \<open>never_run\<close>, the \<open>v-if\<close> of the statistics block is false and the block, which
  holds the three counters and the completion time, is not rendered: the market
  section consists of its header and its button.
\<close>

theorem never_run_hides_stats:
  assumes "st = None \<or> (\<exists>x. st = Some x \<and> status x = Some ''never_run'')"
  shows "show_stats p st = Inr False
     \<and> market_stats p st = Inr []
     \<and> hk_section p (s\<lparr> hkStatus := st \<rparr>) =
         Inr (Div ''market-section''
           [market_header txt_hk_flag txt_hk_title st,
            ElButton ''primary'' ''default'' (hkSyncing s) SyncHK
              [ElIcon [] ''Refresh'', Text txt_hk_button]])
     \<and> us_section p (s\<lparr> usStatus := st \<rparr>) =
         Inr (Div ''market-section''
           [market_header txt_us_flag txt_us_title st,
            ElButton ''primary'' ''default'' (usSyncing s) SyncUS
              [ElIcon [] ''Refresh'', Text txt_us_button]])"
  using assms
  by (auto simp: show_stats_None show_stats_Some market_stats_None market_stats_Some
      market_section_def hk_section_def us_section_def)

text \<open>A \<open>never_run\<close> status that does carry counters and a completion time.\<close>

theorem never_run_hides_stats_witness:
  "status \<lparr> job = None, status = Some ''never_run'', total = Some 7, inserted = Some 1,
         updated = Some 2, errors = None, finished_at = Some ''2024-01-01T00:00:00Z'',
         message = None \<rparr> = Some ''never_run''
   \<and> market_stats sample_platform
      (Some \<lparr> job = None, status = Some ''never_run'', total = Some 7, inserted = Some 1,
         updated = Some 2, errors = None, finished_at = Some ''2024-01-01T00:00:00Z'',
         message = None \<rparr>) = Inr []
   \<and> show_stats sample_platform
      (Some \<lparr> job = None, status = Some ''never_run'', total = Some 7, inserted = Some 1,
         updated = Some 2, errors = None, finished_at = Some ''2024-01-01T00:00:00Z'',
         message = None \<rparr>) = Inr False"
  using never_run_hides_stats
    [of "Some \<lparr> job = None, status = Some ''never_run'', total = Some 7, inserted = Some 1,
         updated = Some 2, errors = None, finished_at = Some ''2024-01-01T00:00:00Z'',
         message = None \<rparr>" sample_platform initial]
  by simp

text \<open>
  C4. When the trigger for both sources is answered with a successful envelope whose
  data holds \<open>hk\<close> and \<open>us\<close>, the part of \<open>syncAll\<close> that receives it replaces both
  status values in one step: the one state shown for the event has both new values,
  and the one frame rendered for it shows, in the \<open>hk\<close> section, the tag and the
  statistics of \<open>res.data.hk\<close> and, in the \<open>us\<close> section, those of \<open>res.data.us\<close>.
  Over the whole call two frames are rendered: the first shows the two old statuses
  and the loading button, the second the two new statuses; no frame shows one old
  and one new status.
\<close>

theorem syncAll_updates_both:
  assumes "res_success res" and "res_data res = Some d"
  shows
   "shown p [AllSyncOutcome (Resolved res)] s =
      [s\<lparr> hkStatus := hk d, usStatus := us d,
          notifications := notifications s @ [(MsgSuccess, msg_all_done)],
          allSyncing := False \<rparr>]
    \<and> frames p [AllSyncOutcome (Resolved res)] s =
      [render p (s\<lparr> hkStatus := hk d, usStatus := us d,
          notifications := notifications s @ [(MsgSuccess, msg_all_done)],
          allSyncing := False \<rparr>)]
    \<and> map (\<lambda>t. (hkStatus t, usStatus t))
        (shown p [Click SyncAll, AllSyncOutcome (Resolved res)] s) =
      [(hkStatus s, usStatus s), (hk d, us d)]
    \<and> (\<exists>hk_old us_old hk_new us_new.
          market_stats p (hkStatus s) = Inr hk_old
          \<and> market_stats p (usStatus s) = Inr us_old
          \<and> market_stats p (hk d) = Inr hk_new
          \<and> market_stats p (us d) = Inr us_new
          \<and> frames p [AllSyncOutcome (Resolved res)] s =
            [Inr (Div ''foreign-sync-control''
               [ElCard ''control-card'' ''hover''
                  [Div ''card-header''
                     [ElIcon ''header-icon'' ''Flag'', Span ''header-title'' txt_header_title]]
                  [Div ''control-content''
                     [Div ''market-section''
                        ([Div ''market-header''
                            [Span ''market-flag'' txt_hk_flag,
                             Span ''market-title'' txt_hk_title,
                             ElTag (getStatusType (opt_chain (hk d) status)) ''small''
                               (getStatusText (opt_chain (hk d) status))]]
                         @ hk_new @
                         [ElButton ''primary'' ''default'' (hkSyncing s) SyncHK
                            [ElIcon [] ''Refresh'', Text txt_hk_button]]),
                      ElDivider,
                      Div ''market-section''
                        ([Div ''market-header''
                            [Span ''market-flag'' txt_us_flag,
                             Span ''market-title'' txt_us_title,
                             ElTag (getStatusType (opt_chain (us d) status)) ''small''
                               (getStatusText (opt_chain (us d) status))]]
                         @ us_new @
                         [ElButton ''primary'' ''default'' (usSyncing s) SyncUS
                            [ElIcon [] ''Refresh'', Text txt_us_button]]),
                      ElDivider,
                      Div ''sync-all-section''
                        [ElButton ''success'' ''large'' False SyncAll
                           [ElIcon [] ''Refresh'', Text txt_all_button]]]]])]
          \<and> frames p [Click SyncAll, AllSyncOutcome (Resolved res)] s =
            [Inr (Div ''foreign-sync-control''
               [ElCard ''control-card'' ''hover''
                  [Div ''card-header''
                     [ElIcon ''header-icon'' ''Flag'', Span ''header-title'' txt_header_title]]
                  [Div ''control-content''
                     [Div ''market-section''
                        ([Div ''market-header''
                            [Span ''market-flag'' txt_hk_flag,
                             Span ''market-title'' txt_hk_title,
                             ElTag (getStatusType (opt_chain (hkStatus s) status)) ''small''
                               (getStatusText (opt_chain (hkStatus s) status))]]
                         @ hk_old @
                         [ElButton ''primary'' ''default'' (hkSyncing s) SyncHK
                            [ElIcon [] ''Refresh'', Text txt_hk_button]]),
                      ElDivider,
                      Div ''market-section''
                        ([Div ''market-header''
                            [Span ''market-flag'' txt_us_flag,
                             Span ''market-title'' txt_us_title,
                             ElTag (getStatusType (opt_chain (usStatus s) status)) ''small''
                               (getStatusText (opt_chain (usStatus s) status))]]
                         @ us_old @
                         [ElButton ''primary'' ''default'' (usSyncing s) SyncUS
                            [ElIcon [] ''Refresh'', Text txt_us_button]]),
                      ElDivider,
                      Div ''sync-all-section''
                        [ElButton ''success'' ''large'' True SyncAll
                           [ElIcon [] ''Refresh'', Text txt_all_button]]]]]),
             Inr (Div ''foreign-sync-control''
               [ElCard ''control-card'' ''hover''
                  [Div ''card-header''
                     [ElIcon ''header-icon'' ''Flag'', Span ''header-title'' txt_header_title]]
                  [Div ''control-content''
                     [Div ''market-section''
                        ([Div ''market-header''
                            [Span ''market-flag'' txt_hk_flag,
                             Span ''market-title'' txt_hk_title,
                             ElTag (getStatusType (opt_chain (hk d) status)) ''small''
                               (getStatusText (opt_chain (hk d) status))]]
                         @ hk_new @
                         [ElButton ''primary'' ''default'' (hkSyncing s) SyncHK
                            [ElIcon [] ''Refresh'', Text txt_hk_button]]),
                      ElDivider,
                      Div ''market-section''
                        ([Div ''market-header''
                            [Span ''market-flag'' txt_us_flag,
                             Span ''market-title'' txt_us_title,
                             ElTag (getStatusType (opt_chain (us d) status)) ''small''
                               (getStatusText (opt_chain (us d) status))]]
                         @ us_new @
                         [ElButton ''primary'' ''default'' (usSyncing s) SyncUS
                            [ElIcon [] ''Refresh'', Text txt_us_button]]),
                      ElDivider,
                      Div ''sync-all-section''
                        [ElButton ''success'' ''large'' False SyncAll
                           [ElIcon [] ''Refresh'', Text txt_all_button]]]]])])"
proof -
  obtain hk_old where a: "market_stats p (hkStatus s) = Inr hk_old"
    using market_stats_total by blast
  obtain us_old where b: "market_stats p (usStatus s) = Inr us_old"
    using market_stats_total by blast
  obtain hk_new where c: "market_stats p (hk d) = Inr hk_new"
    using market_stats_total by blast
  obtain us_new where e: "market_stats p (us d) = Inr us_new"
    using market_stats_total by blast
  have states:
    "shown p [Click SyncAll, AllSyncOutcome (Resolved res)] s =
       [syncAll_begin s,
        (syncAll_begin s)\<lparr> hkStatus := hk d, usStatus := us d,
          notifications := notifications (syncAll_begin s) @ [(MsgSuccess, msg_all_done)],
          allSyncing := False \<rparr>]"
    using assms by (simp add: syncAll_success)
  have one:
    "shown p [AllSyncOutcome (Resolved res)] s =
       [s\<lparr> hkStatus := hk d, usStatus := us d,
          notifications := notifications s @ [(MsgSuccess, msg_all_done)],
          allSyncing := False \<rparr>]"
    using assms by (simp add: syncAll_success)
  have pairs:
    "map (\<lambda>t. (hkStatus t, usStatus t))
        (shown p [Click SyncAll, AllSyncOutcome (Resolved res)] s) =
      [(hkStatus s, usStatus s), (hk d, us d)]"
    unfolding states by (simp add: syncAll_begin_eq)
  have f1:
    "frames p [AllSyncOutcome (Resolved res)] s =
       [Inr (Div ''foreign-sync-control''
          [ElCard ''control-card'' ''hover''
             [Div ''card-header''
                [ElIcon ''header-icon'' ''Flag'', Span ''header-title'' txt_header_title]]
             [Div ''control-content''
                [Div ''market-section''
                   ([Div ''market-header''
                       [Span ''market-flag'' txt_hk_flag,
                        Span ''market-title'' txt_hk_title,
                        ElTag (getStatusType (opt_chain (hk d) status)) ''small''
                          (getStatusText (opt_chain (hk d) status))]]
                    @ hk_new @
                    [ElButton ''primary'' ''default'' (hkSyncing s) SyncHK
                       [ElIcon [] ''Refresh'', Text txt_hk_button]]),
                 ElDivider,
                 Div ''market-section''
                   ([Div ''market-header''
                       [Span ''market-flag'' txt_us_flag,
                        Span ''market-title'' txt_us_title,
                        ElTag (getStatusType (opt_chain (us d) status)) ''small''
                          (getStatusText (opt_chain (us d) status))]]
                    @ us_new @
                    [ElButton ''primary'' ''default'' (usSyncing s) SyncUS
                       [ElIcon [] ''Refresh'', Text txt_us_button]]),
                 ElDivider,
                 Div ''sync-all-section''
                   [ElButton ''success'' ''large'' False SyncAll
                      [ElIcon [] ''Refresh'', Text txt_all_button]]]]])]"
    unfolding frames_def one
    by (simp add: render_def hk_section_def us_section_def market_section_def
        market_header_def sync_all_section_def c e)
  have f2:
    "frames p [Click SyncAll, AllSyncOutcome (Resolved res)] s =
       [Inr (Div ''foreign-sync-control''
          [ElCard ''control-card'' ''hover''
             [Div ''card-header''
                [ElIcon ''header-icon'' ''Flag'', Span ''header-title'' txt_header_title]]
             [Div ''control-content''
                [Div ''market-section''
                   ([Div ''market-header''
                       [Span ''market-flag'' txt_hk_flag,
                        Span ''market-title'' txt_hk_title,
                        ElTag (getStatusType (opt_chain (hkStatus s) status)) ''small''
                          (getStatusText (opt_chain (hkStatus s) status))]]
                    @ hk_old @
                    [ElButton ''primary'' ''default'' (hkSyncing s) SyncHK
                       [ElIcon [] ''Refresh'', Text txt_hk_button]]),
                 ElDivider,
                 Div ''market-section''
                   ([Div ''market-header''
                       [Span ''market-flag'' txt_us_flag,
                        Span ''market-title'' txt_us_title,
                        ElTag (getStatusType (opt_chain (usStatus s) status)) ''small''
                          (getStatusText (opt_chain (usStatus s) status))]]
                    @ us_old @
                    [ElButton ''primary'' ''default'' (usSyncing s) SyncUS
                       [ElIcon [] ''Refresh'', Text txt_us_button]]),
                 ElDivider,
                 Div ''sync-all-section''
                   [ElButton ''success'' ''large'' True SyncAll
                      [ElIcon [] ''Refresh'', Text txt_all_button]]]]]),
        Inr (Div ''foreign-sync-control''
          [ElCard ''control-card'' ''hover''
             [Div ''card-header''
                [ElIcon ''header-icon'' ''Flag'', Span ''header-title'' txt_header_title]]
             [Div ''control-content''
                [Div ''market-section''
                   ([Div ''market-header''
                       [Span ''market-flag'' txt_hk_flag,
                        Span ''market-title'' txt_hk_title,
                        ElTag (getStatusType (opt_chain (hk d) status)) ''small''
                          (getStatusText (opt_chain (hk d) status))]]
                    @ hk_new @
                    [ElButton ''primary'' ''default'' (hkSyncing s) SyncHK
                       [ElIcon [] ''Refresh'', Text txt_hk_button]]),
                 ElDivider,
                 Div ''market-section''
                   ([Div ''market-header''
                       [Span ''market-flag'' txt_us_flag,
                        Span ''market-title'' txt_us_title,
                        ElTag (getStatusType (opt_chain (us d) status)) ''small''
                          (getStatusText (opt_chain (us d) status))]]
                    @ us_new @
                    [ElButton ''primary'' ''default'' (usSyncing s) SyncUS
                       [ElIcon [] ''Refresh'', Text txt_us_button]]),
                 ElDivider,
                 Div ''sync-all-section''
                   [ElButton ''success'' ''large'' False SyncAll
                      [ElIcon [] ''Refresh'', Text txt_all_button]]]]])]"
    unfolding frames_def states
    by (simp add: syncAll_begin_eq render_def hk_section_def us_section_def
        market_section_def market_header_def sync_all_section_def a b c e)
  have f0:
    "frames p [AllSyncOutcome (Resolved res)] s =
      [render p (s\<lparr> hkStatus := hk d, usStatus := us d,
          notifications := notifications s @ [(MsgSuccess, msg_all_done)],
          allSyncing := False \<rparr>)]"
    unfolding frames_def one by simp
  from a b c e f1 f2 have
    "\<exists>hk_old us_old hk_new us_new.
          market_stats p (hkStatus s) = Inr hk_old
          \<and> market_stats p (usStatus s) = Inr us_old
          \<and> market_stats p (hk d) = Inr hk_new
          \<and> market_stats p (us d) = Inr us_new
          \<and> frames p [AllSyncOutcome (Resolved res)] s =
            [Inr (Div ''foreign-sync-control''
               [ElCard ''control-card'' ''hover''
                  [Div ''card-header''
                     [ElIcon ''header-icon'' ''Flag'', Span ''header-title'' txt_header_title]]
                  [Div ''control-content''
                     [Div ''market-section''
                        ([Div ''market-header''
                            [Span ''market-flag'' txt_hk_flag,
                             Span ''market-title'' txt_hk_title,
                             ElTag (getStatusType (opt_chain (hk d) status)) ''small''
                               (getStatusText (opt_chain (hk d) status))]]
                         @ hk_new @
                         [ElButton ''primary'' ''default'' (hkSyncing s) SyncHK
                            [ElIcon [] ''Refresh'', Text txt_hk_button]]),
                      ElDivider,
                      Div ''market-section''
                        ([Div ''market-header''
                            [Span ''market-flag'' txt_us_flag,
                             Span ''market-title'' txt_us_title,
                             ElTag (getStatusType (opt_chain (us d) status)) ''small''
                               (getStatusText (opt_chain (us d) status))]]
                         @ us_new @
                         [ElButton ''primary'' ''default'' (usSyncing s) SyncUS
                            [ElIcon [] ''Refresh'', Text txt_us_button]]),
                      ElDivider,
                      Div ''sync-all-section''
                        [ElButton ''success'' ''large'' False SyncAll
                           [ElIcon [] ''Refresh'', Text txt_all_button]]]]])]
          \<and> frames p [Click SyncAll, AllSyncOutcome (Resolved res)] s =
            [Inr (Div ''foreign-sync-control''
               [ElCard ''control-card'' ''hover''
                  [Div ''card-header''
                     [ElIcon ''header-icon'' ''Flag'', Span ''header-title'' txt_header_title]]
                  [Div ''control-content''
                     [Div ''market-section''
                        ([Div ''market-header''
                            [Span ''market-flag'' txt_hk_flag,
                             Span ''market-title'' txt_hk_title,
                             ElTag (getStatusType (opt_chain (hkStatus s) status)) ''small''
                               (getStatusText (opt_chain (hkStatus s) status))]]
                         @ hk_old @
                         [ElButton ''primary'' ''default'' (hkSyncing s) SyncHK
                            [ElIcon [] ''Refresh'', Text txt_hk_button]]),
                      ElDivider,
                      Div ''market-section''
                        ([Div ''market-header''
                            [Span ''market-flag'' txt_us_flag,
                             Span ''market-title'' txt_us_title,
                             ElTag (getStatusType (opt_chain (usStatus s) status)) ''small''
                               (getStatusText (opt_chain (usStatus s) status))]]
                         @ us_old @
                         [ElButton ''primary'' ''default'' (usSyncing s) SyncUS
                            [ElIcon [] ''Refresh'', Text txt_us_button]]),
                      ElDivider,
                      Div ''sync-all-section''
                        [ElButton ''success'' ''large'' True SyncAll
                           [ElIcon [] ''Refresh'', Text txt_all_button]]]]]),
             Inr (Div ''foreign-sync-control''
               [ElCard ''control-card'' ''hover''
                  [Div ''card-header''
                     [ElIcon ''header-icon'' ''Flag'', Span ''header-title'' txt_header_title]]
                  [Div ''control-content''
                     [Div ''market-section''
                        ([Div ''market-header''
                            [Span ''market-flag'' txt_hk_flag,
                             Span ''market-title'' txt_hk_title,
                             ElTag (getStatusType (opt_chain (hk d) status)) ''small''
                               (getStatusText (opt_chain (hk d) status))]]
                         @ hk_new @
                         [ElButton ''primary'' ''default'' (hkSyncing s) SyncHK
                            [ElIcon [] ''Refresh'', Text txt_hk_button]]),
                      ElDivider,
                      Div ''market-section''
                        ([Div ''market-header''
                            [Span ''market-flag'' txt_us_flag,
                             Span ''market-title'' txt_us_title,
                             ElTag (getStatusType (opt_chain (us d) status)) ''small''
                               (getStatusText (opt_chain (us d) status))]]
                         @ us_new @
                         [ElButton ''primary'' ''default'' (usSyncing s) SyncUS
                            [ElIcon [] ''Refresh'', Text txt_us_button]]),
                      ElDivider,
                      Div ''sync-all-section''
                        [ElButton ''success'' ''large'' False SyncAll
                           [ElIcon [] ''Refresh'', Text txt_all_button]]]]])]"
    by blast
  with one f0 pairs show ?thesis by blast
qed

text \<open>
  A fresh component whose trigger for both sources is answered with a completed \<open>hk\<close>
  job and a failed \<open>us\<close> job: the first frame shows no status at all, the second both.
\<close>

theorem syncAll_updates_both_witness:
  "res_success \<lparr> res_success = True,
           res_data = Some \<lparr>
             hk = Some \<lparr> job = None, status = Some ''completed'', total = Some 10,
               inserted = Some 1, updated = Some 2, errors = None, finished_at = None,
               message = None \<rparr>,
             us = Some \<lparr> job = None, status = Some ''failed'', total = None,
               inserted = None, updated = None, errors = Some 1, finished_at = None,
               message = Some ''quota'' \<rparr> \<rparr>,
           res_message = None \<rparr>
   \<and> map (\<lambda>t. (hkStatus t, usStatus t))
     (shown sample_platform
        [Click SyncAll,
         AllSyncOutcome (Resolved \<lparr> res_success = True,
           res_data = Some \<lparr>
             hk = Some \<lparr> job = None, status = Some ''completed'', total = Some 10,
               inserted = Some 1, updated = Some 2, errors = None, finished_at = None,
               message = None \<rparr>,
             us = Some \<lparr> job = None, status = Some ''failed'', total = None,
               inserted = None, updated = None, errors = Some 1, finished_at = None,
               message = Some ''quota'' \<rparr> \<rparr>,
           res_message = None \<rparr>)]
        initial) =
   [(None, None),
    (Some \<lparr> job = None, status = Some ''completed'', total = Some 10,
               inserted = Some 1, updated = Some 2, errors = None, finished_at = None,
               message = None \<rparr>,
     Some \<lparr> job = None, status = Some ''failed'', total = None,
               inserted = None, updated = None, errors = Some 1, finished_at = None,
               message = Some ''quota'' \<rparr>)]
   \<and> frames sample_platform
        [Click SyncAll,
         AllSyncOutcome (Resolved \<lparr> res_success = True,
           res_data = Some \<lparr>
             hk = Some \<lparr> job = None, status = Some ''completed'', total = Some 10,
               inserted = Some 1, updated = Some 2, errors = None, finished_at = None,
               message = None \<rparr>,
             us = Some \<lparr> job = None, status = Some ''failed'', total = None,
               inserted = None, updated = None, errors = Some 1, finished_at = None,
               message = Some ''quota'' \<rparr> \<rparr>,
           res_message = None \<rparr>)]
        initial =
   [Inr (Div ''foreign-sync-control''
      [ElCard ''control-card'' ''hover''
         [Div ''card-header''
            [ElIcon ''header-icon'' ''Flag'', Span ''header-title'' txt_header_title]]
         [Div ''control-content''
            [Div ''market-section''
               ([Div ''market-header''
                   [Span ''market-flag'' txt_hk_flag,
                    Span ''market-title'' txt_hk_title,
                    ElTag ''info'' ''small'' txt_unknown]]
                @ [] @
                [ElButton ''primary'' ''default'' False SyncHK
                   [ElIcon [] ''Refresh'', Text txt_hk_button]]),
             ElDivider,
             Div ''market-section''
               ([Div ''market-header''
                   [Span ''market-flag'' txt_us_flag,
                    Span ''market-title'' txt_us_title,
                    ElTag ''info'' ''small'' txt_unknown]]
                @ [] @
                [ElButton ''primary'' ''default'' False SyncUS
                   [ElIcon [] ''Refresh'', Text txt_us_button]]),
             ElDivider,
             Div ''sync-all-section''
               [ElButton ''success'' ''large'' True SyncAll
                  [ElIcon [] ''Refresh'', Text txt_all_button]]]]]),
    Inr (Div ''foreign-sync-control''
      [ElCard ''control-card'' ''hover''
         [Div ''card-header''
            [ElIcon ''header-icon'' ''Flag'', Span ''header-title'' txt_header_title]]
         [Div ''control-content''
            [Div ''market-section''
               ([Div ''market-header''
                   [Span ''market-flag'' txt_hk_flag,
                    Span ''market-title'' txt_hk_title,
                    ElTag ''success'' ''small'' txt_completed]]
                @ [Div ''market-stats''
                       [Div ''stat-row''
                          [Span ''stat-label'' txt_total_label,
                           Span ''stat-value'' ''10'',
                           Span ''stat-label'' txt_inserted_label,
                           Span ''stat-value success'' ''1'',
                           Span ''stat-label'' txt_updated_label,
                           Span ''stat-value primary'' ''2'']]] @
                [ElButton ''primary'' ''default'' False SyncHK
                   [ElIcon [] ''Refresh'', Text txt_hk_button]]),
             ElDivider,
             Div ''market-section''
               ([Div ''market-header''
                   [Span ''market-flag'' txt_us_flag,
                    Span ''market-title'' txt_us_title,
                    ElTag ''danger'' ''small'' txt_failed]]
                @ [Div ''market-stats''
                       [Div ''stat-row''
                          [Span ''stat-label'' txt_total_label,
                           Span ''stat-value'' ''0'',
                           Span ''stat-label'' txt_inserted_label,
                           Span ''stat-value success'' ''0'',
                           Span ''stat-label'' txt_updated_label,
                           Span ''stat-value primary'' ''0'']]] @
                [ElButton ''primary'' ''default'' False SyncUS
                   [ElIcon [] ''Refresh'', Text txt_us_button]]),
             ElDivider,
             Div ''sync-all-section''
               [ElButton ''success'' ''large'' False SyncAll
                  [ElIcon [] ''Refresh'', Text txt_all_button]]]]])]"
  using syncAll_updates_both
    [of "\<lparr> res_success = True,
           res_data = Some \<lparr>
             hk = Some \<lparr> job = None, status = Some ''completed'', total = Some 10,
               inserted = Some 1, updated = Some 2, errors = None, finished_at = None,
               message = None \<rparr>,
             us = Some \<lparr> job = None, status = Some ''failed'', total = None,
               inserted = None, updated = None, errors = Some 1, finished_at = None,
               message = Some ''quota'' \<rparr> \<rparr>,
           res_message = None \<rparr>"
        "\<lparr>
             hk = Some \<lparr> job = None, status = Some ''completed'', total = Some 10,
               inserted = Some 1, updated = Some 2, errors = None, finished_at = None,
               message = None \<rparr>,
             us = Some \<lparr> job = None, status = Some ''failed'', total = None,
               inserted = None, updated = None, errors = Some 1, finished_at = None,
               message = Some ''quota'' \<rparr> \<rparr>"
        sample_platform initial]
  by (simp add: initial_def market_stats_None market_stats_Some opt_chain_def
      getStatusType_def getStatusText_def or_zero_def String_number_def digit_chars.simps
      truthy_string_def)

text \<open>
  C5. Each trigger sets its own in-progress flag (\<open>hkSyncing\<close>, \<open>usSyncing\<close>,
  \<open>allSyncing\<close>) in its first part; the template binds each flag as the \<open>loading\<close> of
  the one button that calls the trigger; and the part that receives the outcome ends
  with the flag false, whatever the outcome: a successful envelope, a failure
  envelope or a rejection.
\<close>

theorem syncing_flags:
  "hkSyncing (syncHK_begin s) \<and> usSyncing (syncUS_begin s) \<and> allSyncing (syncAll_begin s)
   \<and> (\<exists>v. render p s = Inr v
         \<and> loading_of SyncHK v = [hkSyncing s]
         \<and> loading_of SyncUS v = [usSyncing s]
         \<and> loading_of SyncAll v = [allSyncing s])
   \<and> hkSyncing (syncHK_resume p out s) = False
   \<and> usSyncing (syncUS_resume p out s) = False
   \<and> allSyncing (syncAll_resume p outA s) = False"
  using render_loading [of p s]
  by (simp add: syncHK_begin_eq syncUS_begin_eq syncAll_begin_eq
      syncHK_resume_flag syncUS_resume_flag syncAll_resume_flag)

text \<open>
  C6. Each trigger issues one \<open>POST\<close> to the endpoint of its source with the body
  \<open>{ force: false }\<close> (the handlers take no argument: \<open>force\<close> is always false); on a
  successful envelope the status of the source becomes \<open>res.data\<close>, and for the
  trigger of both sources the two statuses become \<open>res.data.hk\<close> and \<open>res.data.us\<close>.
\<close>

theorem trigger_request_and_success:
  "requests (syncHK_begin s) =
      requests s @ [POST ''/api/sync/multi-source/hk/sync'' \<lparr> force = False \<rparr>]
   \<and> requests (syncUS_begin s) =
      requests s @ [POST ''/api/sync/multi-source/us/sync'' \<lparr> force = False \<rparr>]
   \<and> requests (syncAll_begin s) =
      requests s @ [POST ''/api/sync/multi-source/foreign/sync'' \<lparr> force = False \<rparr>]
   \<and> (res_success res \<longrightarrow>
        hkStatus (syncHK_resume p (Resolved res) s) = res_data res
        \<and> usStatus (syncUS_resume p (Resolved res) s) = res_data res)
   \<and> (res_success resA \<and> res_data resA = Some d \<longrightarrow>
        hkStatus (syncAll_resume p (Resolved resA) s) = hk d
        \<and> usStatus (syncAll_resume p (Resolved resA) s) = us d)"
  by (simp add: syncHK_begin_eq syncUS_begin_eq syncAll_begin_eq
      syncHK_success syncUS_success syncAll_success)

theorem trigger_request_and_success_witness:
  "res_success \<lparr> res_success = True,
      res_data = Some \<lparr> job = None, status = Some ''completed'', total = Some 10,
        inserted = Some 1, updated = Some 2, errors = None, finished_at = None,
        message = None \<rparr>,
      res_message = None \<rparr>
   \<and> res_success \<lparr> res_success = True,
      res_data = Some \<lparr> hk = None, us = Some \<lparr> job = None, status = Some ''running'',
        total = None, inserted = None, updated = None, errors = None, finished_at = None,
        message = None \<rparr> \<rparr>,
      res_message = None \<rparr>
   \<and> requests (syncHK_begin initial) =
        [POST ''/api/sync/multi-source/hk/sync'' \<lparr> force = False \<rparr>]
   \<and> hkStatus (syncHK_resume sample_platform
        (Resolved \<lparr> res_success = True,
           res_data = Some \<lparr> job = None, status = Some ''completed'', total = Some 10,
             inserted = Some 1, updated = Some 2, errors = None, finished_at = None,
             message = None \<rparr>,
           res_message = None \<rparr>) initial) =
        Some \<lparr> job = None, status = Some ''completed'', total = Some 10,
          inserted = Some 1, updated = Some 2, errors = None, finished_at = None,
          message = None \<rparr>
   \<and> usStatus (syncAll_resume sample_platform
        (Resolved \<lparr> res_success = True,
           res_data = Some \<lparr> hk = None, us = Some \<lparr> job = None, status = Some ''running'',
             total = None, inserted = None, updated = None, errors = None,
             finished_at = None, message = None \<rparr> \<rparr>,
           res_message = None \<rparr>) initial) =
        Some \<lparr> job = None, status = Some ''running'', total = None, inserted = None,
          updated = None, errors = None, finished_at = None, message = None \<rparr>"
  using trigger_request_and_success
    [of initial
        "\<lparr> res_success = True,
           res_data = Some \<lparr> job = None, status = Some ''completed'', total = Some 10,
             inserted = Some 1, updated = Some 2, errors = None, finished_at = None,
             message = None \<rparr>,
           res_message = None \<rparr>"
        sample_platform
        "\<lparr> res_success = True,
           res_data = Some \<lparr> hk = None, us = Some \<lparr> job = None, status = Some ''running'',
             total = None, inserted = None, updated = None, errors = None,
             finished_at = None, message = None \<rparr> \<rparr>,
           res_message = None \<rparr>"
        "\<lparr> hk = None, us = Some \<lparr> job = None, status = Some ''running'',
             total = None, inserted = None, updated = None, errors = None,
             finished_at = None, message = None \<rparr> \<rparr>"]
  by (simp add: initial_def)

text \<open>
  C7. After the status fetch for \<open>hk\<close> is answered with the envelope of the scenario,
  the \<open>hk\<close> section shows the tag of type \<open>success\<close> with the text U+5DF2 U+5B8C
  U+6210, the total \<open>1200\<close>, the inserted count \<open>5\<close> in the class \<open>success\<close>, the
  updated count \<open>3\<close> in the class \<open>primary\<close>, and the completion time as the
  platform's \<open>toLocaleString\<close> formats it.
\<close>

theorem completed_scenario:
  "hk_section p (fetchHKStatus_resume
      (Resolved \<lparr> res_success = True,
          res_data = Some \<lparr> job = None, status = Some ''completed'', total = Some 1200,
            inserted = Some 5, updated = Some 3, errors = None,
            finished_at = Some ''2024-01-01T00:00:00Z'', message = None \<rparr>,
          res_message = None \<rparr>) s) =
    Inr (Div ''market-section''
      [Div ''market-header''
         [Span ''market-flag'' txt_hk_flag,
          Span ''market-title'' txt_hk_title,
          ElTag ''success'' ''small'' txt_completed],
       Div ''market-stats''
         [Div ''stat-row''
            [Span ''stat-label'' txt_total_label,
             Span ''stat-value'' ''1200'',
             Span ''stat-label'' txt_inserted_label,
             Span ''stat-value success'' ''5'',
             Span ''stat-label'' txt_updated_label,
             Span ''stat-value primary'' ''3''],
          Div ''sync-time''
            [Text (txt_finished_label @ toLocaleString p ''2024-01-01T00:00:00Z'')]],
       ElButton ''primary'' ''default'' (hkSyncing s) SyncHK
         [ElIcon [] ''Refresh'', Text txt_hk_button]])"
  by (simp add: hk_section_def fetchHKStatus_resume_def market_section_def market_stats_Some
      market_header_def opt_chain_def getStatusType_def getStatusText_def or_zero_def
      String_number_def digit_chars.simps truthy_string_def formatTime_def)

text \<open>
  C8. The startup script runs in this order: it changes directory and prints its
  banner, then runs \<open>docker info\<close>. When that fails it prints a message and ends by
  \<open>exit 1\<close>, having started nothing. Otherwise it runs \<open>docker-compose up -d mongodb
  redis\<close>, then \<open>sleep 3\<close>, activates the virtual environment and runs the watchdog,
  whose status is the script's when it returns. The only \<open>exit\<close> written in the script
  is that \<open>exit 1\<close>.
\<close>

theorem startup_script_run:
  "run_script env vs startup_script =
     (if status_of env [''docker'', ''info''] \<noteq> 0 then
        ([Exec [''cd'', output_of env [''dirname'', vs ''0''] @ ''/..''],
          Out echo_banner,
          Out (echo_project_dir @ output_of env [''pwd'']),
          Out [],
          Exec [''docker'', ''info''],
          Out echo_docker_down], ByExit 1)
      else
        ([Exec [''cd'', output_of env [''dirname'', vs ''0''] @ ''/..''],
          Out echo_banner,
          Out (echo_project_dir @ output_of env [''pwd'']),
          Out [],
          Exec [''docker'', ''info''],
          Out echo_docker_up,
          Exec [''docker-compose'', ''up'', ''-d'', ''mongodb'', ''redis''],
          Exec [''sleep'', ''3''],
          Out echo_watchdog,
          Exec [''source'', ''.venv/bin/activate''],
          Exec [''python'', ''scripts/watchdog.py'']],
         AtEnd (status_of env [''python'', ''scripts/watchdog.py''])))
   \<and> concat (map exits startup_script) = [1]"
  by (simp add: run_script_def startup_script_def run_simple_def expand_word_def Let_def)

text \<open>
  C9. The two display mappings are defined on every status: outside the four known
  strings, and for an absent status, the text is U+672A U+77E5 and the type is
  \<open>info\<close>; \<open>never_run\<close> has the type \<open>info\<close> too; and every status gives one of the
  four tag types and one of the five tag texts.
\<close>

theorem status_display_total:
  "(st \<notin> {Some ''completed'', Some ''running'', Some ''failed'', Some ''never_run''} \<longrightarrow>
      getStatusText st = txt_unknown \<and> getStatusType st = ''info'')
   \<and> getStatusText None = txt_unknown \<and> getStatusType None = ''info''
   \<and> getStatusType (Some ''never_run'') = ''info''
   \<and> getStatusType st \<in> {''success'', ''warning'', ''danger'', ''info''}
   \<and> getStatusText st \<in> {txt_completed, txt_running, txt_failed, txt_never_run, txt_unknown}"
  by (simp add: getStatusText_def getStatusType_def)

text \<open>The status \<open>unknown\<close> of the specification's data model.\<close>

theorem status_display_total_witness:
  "Some ''unknown'' \<notin> {Some ''completed'', Some ''running'', Some ''failed'', Some ''never_run''}
   \<and> getStatusText (Some ''unknown'') = txt_unknown
   \<and> getStatusType (Some ''unknown'') = ''info''"
  using status_display_total [of "Some ''unknown''"] by simp

text \<open>
  C10. Rendering never throws, whatever the state. When the statistics block is shown
  (a status object whose \<open>status\<close> is not \<open>never_run\<close>), each counter is rendered
  through \<open>|| 0\<close>, so that an absent counter and the counter 0 are rendered as \<open>0\<close>; and
  \<open>formatTime\<close> gives the empty string for an absent and for an empty time.
\<close>

theorem rendering_total:
  "(\<exists>v. render p s = Inr v)
   \<and> (status x \<noteq> Some ''never_run'' \<longrightarrow>
        market_stats p (Some x) =
          Inr [Div ''market-stats''
             (Div ''stat-row''
               [Span ''stat-label'' txt_total_label,
                Span ''stat-value'' (String_number (or_zero (total x))),
                Span ''stat-label'' txt_inserted_label,
                Span ''stat-value success'' (String_number (or_zero (inserted x))),
                Span ''stat-label'' txt_updated_label,
                Span ''stat-value primary'' (String_number (or_zero (updated x)))]
              # (if truthy_string (finished_at x)
                 then [Div ''sync-time''
                         [Text (txt_finished_label @ formatTime p (finished_at x))]]
                 else []))])
   \<and> String_number (or_zero None) = ''0''
   \<and> String_number (or_zero (Some 0)) = ''0''
   \<and> formatTime p None = []
   \<and> formatTime p (Some []) = []"
  using render_total [of p s]
  by (simp add: market_stats_Some or_zero_falsy String_number_0 formatTime_def truthy_string_def)

text \<open>A running job that has reported nothing yet.\<close>

theorem rendering_total_witness:
  "status \<lparr> job = None, status = Some ''running'', total = None, inserted = Some 0,
       updated = None, errors = None, finished_at = None, message = None \<rparr>
     \<noteq> Some ''never_run''
   \<and> market_stats sample_platform
       (Some \<lparr> job = None, status = Some ''running'', total = None, inserted = Some 0,
          updated = None, errors = None, finished_at = None, message = None \<rparr>) =
     Inr [Div ''market-stats''
            [Div ''stat-row''
               [Span ''stat-label'' txt_total_label,
                Span ''stat-value'' ''0'',
                Span ''stat-label'' txt_inserted_label,
                Span ''stat-value success'' ''0'',
                Span ''stat-label'' txt_updated_label,
                Span ''stat-value primary'' ''0'']]]"
  using rendering_total
    [of sample_platform initial
        "\<lparr> job = None, status = Some ''running'', total = None, inserted = Some 0,
           updated = None, errors = None, finished_at = None, message = None \<rparr>"]
  by (simp add: or_zero_falsy String_number_0 truthy_string_def)

end
